theory Spec2Isabelle
  imports Main "HOL-Library.Word" "HOL-Library.Sublist"
begin

section \<open>Luna Massage email service: bounded retry, error classification, validation\<close>

text \<open>
  The development follows the Express server with the retry logic (the source file
  that defines \<^verbatim>\<open>sendEmailWithRetry\<close>). Modelling decisions:

  \<^item> A JavaScript string is its sequence of UTF-16 code units, a list of 16-bit words.
  \<^item> JavaScript numbers that count attempts and milliseconds are mathematical
    integers; the callers in the source pass 1 and 2 for \<^verbatim>\<open>maxRetries\<close>.
  \<^item> The process-wide \<^verbatim>\<open>transporter\<close> is an explicit parameter: a function from the
    ordinal of the invocation (1 for the first \<^verbatim>\<open>sendMail\<close> call ever made) and the
    message to either the error object it rejects with or the \<^verbatim>\<open>info\<close> object it
    resolves to.
  \<^item> Effects are recorded in a chronological trace of events: each call of
    \<^verbatim>\<open>transporter.sendMail\<close> and each \<^verbatim>\<open>setTimeout\<close> sleep with the delay requested
    in milliseconds. Console output is not recorded.
  \<^item> A \<^verbatim>\<open>throw\<close> is the left injection of the result.
\<close>

subsection \<open>Strings\<close>

type_synonym js_string = "16 word list"

definition lit :: "string \<Rightarrow> js_string" where
  "lit s = map of_char s"

text \<open>\<^verbatim>\<open>String.prototype.includes\<close>: the needle occurs as a contiguous run of code units.\<close>

fun includes_js :: "js_string \<Rightarrow> js_string \<Rightarrow> bool" where
  "includes_js [] t = (t = [])"
| "includes_js (c # cs) t = (prefix t (c # cs) \<or> includes_js cs t)"

subsection \<open>Values crossing the transport boundary\<close>

text \<open>An \<^verbatim>\<open>Error\<close> object as nodemailer raises it: a message and an optional code.\<close>

record js_error =
  message :: js_string
  code :: "js_string option"

text \<open>What a \<^verbatim>\<open>throw\<close> can carry here: \<^verbatim>\<open>undefined\<close> or an error object.\<close>

datatype js_value = Undefined | Error js_error

record info =
  messageId :: js_string
  response :: js_string

record mailOptions =
  from_ :: js_string
  to_ :: js_string
  subject :: js_string
  html :: js_string
  replyTo :: "js_string option"
  text_ :: js_string

datatype event = SendMail mailOptions | Sleep int

type_synonym transport = "nat \<Rightarrow> mailOptions \<Rightarrow> js_error + info"

fun is_send :: "event \<Rightarrow> bool" where
  "is_send (SendMail m) = True"
| "is_send (Sleep d) = False"

text \<open>The number of transport invocations recorded in a trace.\<close>

definition invocations :: "event list \<Rightarrow> nat" where
  "invocations t = length (filter is_send t)"

text \<open>The delays of the sleeps recorded in a trace, in order.\<close>

fun sleeps :: "event list \<Rightarrow> int list" where
  "sleeps [] = []"
| "sleeps (SendMail m # t) = sleeps t"
| "sleeps (Sleep d # t) = d # sleeps t"

subsection \<open>sendEmailWithRetry\<close>

text \<open>
  \<^verbatim>\<open>
  async function sendEmailWithRetry(mailOptions, maxRetries = 2) {
      let lastError;
      for (let attempt = 1; attempt <= maxRetries; attempt++) {
          try {
              const info = await transporter.sendMail(mailOptions);
              return info;
          } catch (error) {
              lastError = error;
              if (attempt < maxRetries) {
                  const delay = Math.pow(2, attempt) * 1000;
                  await new Promise(resolve => setTimeout(resolve, delay));
              }
          }
      }
      throw lastError;
  }
  \<close>
  The loop is a recursive function of the loop variable \<^verbatim>\<open>attempt\<close>, the variable
  \<^verbatim>\<open>lastError\<close> and the trace so far.
\<close>

function retry_loop ::
  "transport \<Rightarrow> mailOptions \<Rightarrow> int \<Rightarrow> int \<Rightarrow> js_value \<Rightarrow> event list
    \<Rightarrow> (js_value + info) \<times> event list" where
  "retry_loop transporter mo maxRetries attempt lastError t =
     (if attempt \<le> maxRetries then
        (case transporter (Suc (invocations t)) mo of
           Inr info \<Rightarrow> (Inr info, t @ [SendMail mo])
         | Inl error \<Rightarrow>
             retry_loop transporter mo maxRetries (attempt + 1) (Error error)
               (if attempt < maxRetries
                then t @ [SendMail mo, Sleep (2 ^ nat attempt * 1000)]
                else t @ [SendMail mo]))
      else (Inl lastError, t))"
  by pat_completeness auto
termination
  by (relation "measure (\<lambda>(tr, mo, maxRetries, attempt, le, t). nat (maxRetries + 1 - attempt))")
    auto

definition sendEmailWithRetry ::
  "transport \<Rightarrow> mailOptions \<Rightarrow> int \<Rightarrow> event list \<Rightarrow> (js_value + info) \<times> event list" where
  "sendEmailWithRetry transporter mo maxRetries t =
     retry_loop transporter mo maxRetries 1 Undefined t"

subsection \<open>The request handler of POST /send-confirmation\<close>

text \<open>
  The payload is the documented one: \<^verbatim>\<open>{ booking: {email, bookingId, ...}, status }\<close>.
  A field is either absent (\<^verbatim>\<open>undefined\<close>, here \<open>None\<close>) or a string. The handler
  receives \<^verbatim>\<open>req.body\<close> as \<open>request_body option\<close>: \<open>None\<close> is a request for which
  the JSON middleware parsed no body and left \<^verbatim>\<open>req.body\<close> undefined.
\<close>

record booking =
  email :: "js_string option"
  bookingId :: "js_string option"
  service :: "js_string option"
  date :: "js_string option"
  time :: "js_string option"
  servicePrice :: "js_string option"

record request_body =
  booking :: "booking option"
  status :: "js_string option"

text \<open>
  What the handler reads from outside the request: \<^verbatim>\<open>process.env.EMAIL_USER\<close>, the two
  HTML generators (their template text is elided in the source, so they are parameters),
  the plain-text fallback (the template literal of the \<^verbatim>\<open>text\<close> field, which goes
  through \<^verbatim>\<open>Date\<close> and the locale), the clock read by
  \<^verbatim>\<open>new Date().toISOString()\<close>, and the message the engine gives the
  \<^verbatim>\<open>TypeError\<close> it raises when an undefined \<^verbatim>\<open>req.body\<close> is destructured.
\<close>

record runtime =
  EMAIL_USER :: "js_string option"
  generateConfirmationEmail :: "booking \<Rightarrow> js_string"
  generateReminderEmail :: "booking \<Rightarrow> js_string"
  textBody :: "booking \<Rightarrow> js_string"
  now :: js_string
  destructureMessage :: js_string

text \<open>The JSON answer together with its HTTP status; an absent key is \<open>None\<close>.\<close>

record http_response =
  res_status :: nat
  res_success :: bool
  res_error :: "js_string option"
  res_code :: "js_string option"
  res_messageId :: "js_string option"
  res_recipient :: "js_string option"
  res_timestamp :: "js_string option"

text \<open>An exception that leaves the handler: reading \<^verbatim>\<open>.message\<close> of \<^verbatim>\<open>undefined\<close>.\<close>

datatype uncaught = TypeError

text \<open>A value interpolated by a template literal.\<close>

fun interpolate :: "js_string option \<Rightarrow> js_string" where
  "interpolate None = lit ''undefined''"
| "interpolate (Some s) = s"

text \<open>
  The class \<^verbatim>\<open>\s\<close> of a regular expression: the white space and line terminator code
  units of ECMAScript.
\<close>

definition is_space :: "16 word \<Rightarrow> bool" where
  "is_space c =
     (c \<in> {0x09, 0x0A, 0x0B, 0x0C, 0x0D, 0x20, 0xA0, 0x1680, 0x2028, 0x2029, 0x202F,
            0x205F, 0x3000, 0xFEFF}
      \<or> (0x2000 \<le> c \<and> c \<le> 0x200A))"

text \<open>The class \<^verbatim>\<open>[^\s@]\<close>.\<close>

definition not_space_at :: "16 word \<Rightarrow> bool" where
  "not_space_at c = (\<not> is_space c \<and> c \<noteq> 0x40)"

text \<open>
  \<^verbatim>\<open>/^[^\s@]+@[^\s@]+\.[^\s@]+$/.test(s)\<close>, one matcher for each of the three runs of
  the pattern: \<open>match_tld\<close> for \<^verbatim>\<open>[^\s@]+$\<close>, \<open>match_domain\<close> for
  \<^verbatim>\<open>[^\s@]+\.[^\s@]+$\<close> and \<open>match_local\<close> for the whole pattern. A run may stop
  after any of its characters, which is the choice the disjunctions make.
\<close>

definition match_tld :: "js_string \<Rightarrow> bool" where
  "match_tld s = (s \<noteq> [] \<and> list_all not_space_at s)"

fun match_domain :: "js_string \<Rightarrow> bool" where
  "match_domain [] = False"
| "match_domain (c # cs) =
     (not_space_at c \<and>
       ((case cs of [] \<Rightarrow> False | d # ds \<Rightarrow> d = 0x2E \<and> match_tld ds) \<or> match_domain cs))"

fun match_local :: "js_string \<Rightarrow> bool" where
  "match_local [] = False"
| "match_local (c # cs) =
     (not_space_at c \<and>
       ((case cs of [] \<Rightarrow> False | d # ds \<Rightarrow> d = 0x40 \<and> match_domain ds) \<or> match_local cs))"

definition emailRegex_test :: "js_string \<Rightarrow> bool" where
  "emailRegex_test s = match_local s"

text \<open>
  The \<^verbatim>\<open>catch\<close> block of the handler: the message and the status chosen for an error
  object, in the order of the source's \<^verbatim>\<open>if\<close> chain.
\<close>

definition classify :: "js_error \<Rightarrow> js_string \<times> nat" where
  "classify error =
     (if includes_js (message error) (lit ''timeout'') \<or> code error = Some (lit ''ETIMEDOUT'')
      then (lit ''Connection to Gmail timed out. Please try again.'', 504)
      else if code error = Some (lit ''EAUTH'')
      then (lit ''Email authentication failed. Check your Gmail App Password on Render.'', 500)
      else if code error = Some (lit ''ECONNECTION'')
      then (lit ''Cannot connect to Gmail servers. Check network or firewall settings.'', 500)
      else if code error = Some (lit ''ENOTFOUND'')
      then (lit ''Cannot resolve Gmail server. Network issue.'', 500)
      else (message error, 500))"

fun catch_block :: "runtime \<Rightarrow> js_value \<Rightarrow> uncaught + http_response" where
  "catch_block rt Undefined = Inl TypeError"
| "catch_block rt (Error error) =
     (let (errorMessage, statusCode) = classify error
      in Inr \<lparr>res_status = statusCode, res_success = False, res_error = Some errorMessage,
              res_code = code error, res_messageId = None, res_recipient = None,
              res_timestamp = Some (now rt)\<rparr>)"

definition bad_request :: "js_string \<Rightarrow> http_response" where
  "bad_request msg =
     \<lparr>res_status = 400, res_success = False, res_error = Some msg, res_code = None,
      res_messageId = None, res_recipient = None, res_timestamp = None\<rparr>"

text \<open>The two subjects; the emoji are U+2728 and U+1F4C5 (a surrogate pair).\<close>

definition confirmation_subject :: "booking \<Rightarrow> js_string" where
  "confirmation_subject b =
     [0x2728] @ lit '' Payment Confirmed - Luna Massage Booking '' @ interpolate (bookingId b)"

definition reminder_subject :: js_string where
  "reminder_subject = [0xD83D, 0xDCC5] @ lit '' Reminder - Your Luna Massage Appointment''"

text \<open>Template selection and the \<^verbatim>\<open>mailOptions\<close> object of the handler.\<close>

definition build_mailOptions :: "runtime \<Rightarrow> booking \<Rightarrow> js_string option \<Rightarrow> js_string \<Rightarrow> mailOptions" where
  "build_mailOptions rt b st recipient =
     (let isConfirmation = (st = Some (lit ''confirmed''));
          subject = (if isConfirmation then confirmation_subject b else reminder_subject);
          htmlContent = (if isConfirmation then generateConfirmationEmail rt b
                         else generateReminderEmail rt b)
      in \<lparr>from_ = [0x22] @ lit ''Luna Massage'' @ [0x22] @ lit '' <''
                    @ interpolate (EMAIL_USER rt) @ lit ''>'',
          to_ = recipient,
          subject = subject,
          html = htmlContent,
          replyTo = Some (lit ''info@lunamassage.com''),
          text_ = textBody rt b\<rparr>)"

text \<open>
  The handler. The destructuring of \<^verbatim>\<open>req.body\<close> is the first statement of the
  \<^verbatim>\<open>try\<close> block: when \<^verbatim>\<open>req.body\<close> is undefined it throws a \<^verbatim>\<open>TypeError\<close>, an error
  object with no code, and the \<^verbatim>\<open>catch\<close> block of the handler answers.
  \<^verbatim>\<open>!booking.email\<close> holds for an absent email and for the empty string,
  the two falsy values of an optional string. The handler passes the literal 2 as
  \<^verbatim>\<open>maxRetries\<close>. The socket timeout set by \<^verbatim>\<open>req.setTimeout(45000)\<close> is real time and
  is not part of the model.
  \<^verbatim>\<open>
  const { booking, status } = req.body;
  if (!booking || !booking.email) return res.status(400).json({success: false, error: ...});
  if (!emailRegex.test(booking.email)) return res.status(400).json({success: false, error: ...});
  ...
  const info = await sendEmailWithRetry(mailOptions, 2);
  res.json({success: true, messageId: info.messageId, recipient: booking.email, timestamp: ...});
  \<close>
\<close>

definition send_confirmation ::
  "runtime \<Rightarrow> transport \<Rightarrow> request_body option \<Rightarrow> event list
    \<Rightarrow> (uncaught + http_response) \<times> event list" where
  "send_confirmation rt transporter req_body t =
     (case req_body of
        None \<Rightarrow>
          (catch_block rt (Error \<lparr>message = destructureMessage rt, code = None\<rparr>), t)
      | Some body \<Rightarrow>
          (case booking body of
             None \<Rightarrow> (Inr (bad_request (lit ''Missing required booking data'')), t)
           | Some b \<Rightarrow>
               (case email b of
                  None \<Rightarrow> (Inr (bad_request (lit ''Missing required booking data'')), t)
                | Some e \<Rightarrow>
                    if e = []
                    then (Inr (bad_request (lit ''Missing required booking data'')), t)
                    else if \<not> emailRegex_test e
                    then (Inr (bad_request (lit ''Invalid email address'')), t)
                    else
                      (case sendEmailWithRetry transporter
                              (build_mailOptions rt b (status body) e) 2 t of
                         (Inr info, t') \<Rightarrow>
                           (Inr \<lparr>res_status = 200, res_success = True, res_error = None,
                                  res_code = None, res_messageId = Some (messageId info),
                                  res_recipient = Some e, res_timestamp = Some (now rt)\<rparr>, t')
                       | (Inl error, t') \<Rightarrow> (catch_block rt error, t')))))"

subsection \<open>Transports and errors of the scenarios\<close>

definition sample_mail :: mailOptions where
  "sample_mail =
     \<lparr>from_ = lit ''luna@example.com'', to_ = lit ''guest@example.com'',
      subject = reminder_subject, html = lit ''...'', replyTo = None, text_ = lit ''hello''\<rparr>"

definition auth_error :: js_error where
  "auth_error = \<lparr>message = lit ''Invalid login'', code = Some (lit ''EAUTH'')\<rparr>"

definition timeout_error :: js_error where
  "timeout_error = \<lparr>message = lit ''Connection timeout'', code = Some (lit ''ETIMEDOUT'')\<rparr>"

definition sample_info :: info where
  "sample_info = \<lparr>messageId = lit ''<1@mail>'', response = lit ''250 OK''\<rparr>"

text \<open>A transport that rejects every call with the same error.\<close>

definition always_fails :: "js_error \<Rightarrow> transport" where
  "always_fails e = (\<lambda>i m. Inl e)"

text \<open>A transport that rejects the calls before the \<open>k\<close>-th and accepts from then on.\<close>

definition succeeds_from :: "nat \<Rightarrow> js_error \<Rightarrow> info \<Rightarrow> transport" where
  "succeeds_from k e ok = (\<lambda>i m. if i < k then Inl e else Inr ok)"

definition sample_runtime :: runtime where
  "sample_runtime =
     \<lparr>EMAIL_USER = Some (lit ''luna@example.com''),
      generateConfirmationEmail = (\<lambda>b. lit ''...''),
      generateReminderEmail = (\<lambda>b. lit ''...''),
      textBody = (\<lambda>b. lit ''Luna Massage Booking Confirmation''),
      now = lit ''2026-01-01T00:00:00.000Z'',
      destructureMessage =
        lit ''Cannot destructure property '' @ [0x27] @ lit ''booking'' @ [0x27] @ lit '' of ''
          @ [0x27] @ lit ''req.body'' @ [0x27] @ lit '' as it is undefined.''\<rparr>"

definition sample_booking :: booking where
  "sample_booking =
     \<lparr>email = Some (lit ''guest@example.com''), bookingId = Some (lit ''LM1''),
      service = Some (lit ''Swedish Massage''), date = Some (lit ''2026-01-08''),
      time = Some (lit ''14:00''), servicePrice = Some (lit ''80'')\<rparr>"

subsection \<open>The string functions against their declarative reading\<close>

text \<open>
  \<open>includes_js\<close> is the contiguous-sublist relation of the library, and the matcher
  accepts exactly the strings of the form \<open>a@b.c\<close> whose three parts are non-empty
  and free of white space and \<open>@\<close>: the language of the regular expression.
\<close>

lemma includes_js_sublist: "includes_js s t = sublist t s"
  by (induction s) (auto simp: sublist_Cons_right)

lemma match_domain_iff:
  "match_domain s =
     (\<exists>b c. s = b @ 0x2E # c \<and> b \<noteq> [] \<and> c \<noteq> [] \<and>
            list_all not_space_at b \<and> list_all not_space_at c)"
proof (induction s)
  case Nil
  then show ?case by simp
next
  case (Cons x xs)
  show ?case
  proof
    assume m: "match_domain (x # xs)"
    then have x: "not_space_at x" by simp
    from m have "(\<exists>ds. xs = 0x2E # ds \<and> match_tld ds) \<or> match_domain xs"
      by (cases xs) simp_all
    then consider ds where "xs = 0x2E # ds" "match_tld ds" | "match_domain xs"
      by blast
    then show "\<exists>b c. x # xs = b @ 0x2E # c \<and> b \<noteq> [] \<and> c \<noteq> [] \<and>
            list_all not_space_at b \<and> list_all not_space_at c"
    proof cases
      case 1
      with x have "x # xs = [x] @ 0x2E # ds \<and> [x] \<noteq> [] \<and> ds \<noteq> [] \<and>
            list_all not_space_at [x] \<and> list_all not_space_at ds"
        by (simp add: match_tld_def)
      then show ?thesis by (intro exI)
    next
      case 2
      then have "\<exists>b c. xs = b @ 0x2E # c \<and> b \<noteq> [] \<and> c \<noteq> [] \<and>
            list_all not_space_at b \<and> list_all not_space_at c"
        by (simp only: Cons.IH)
      then obtain b c where "xs = b @ 0x2E # c" "b \<noteq> []" "c \<noteq> []"
        "list_all not_space_at b" "list_all not_space_at c" by blast
      with x have "x # xs = (x # b) @ 0x2E # c \<and> x # b \<noteq> [] \<and> c \<noteq> [] \<and>
            list_all not_space_at (x # b) \<and> list_all not_space_at c"
        by simp
      then show ?thesis by (intro exI)
    qed
  next
    assume "\<exists>b c. x # xs = b @ 0x2E # c \<and> b \<noteq> [] \<and> c \<noteq> [] \<and>
            list_all not_space_at b \<and> list_all not_space_at c"
    then obtain b c where bc: "x # xs = b @ 0x2E # c" "b \<noteq> []" "c \<noteq> []"
        "list_all not_space_at b" "list_all not_space_at c" by blast
    from bc(2) obtain y b' where b': "b = y # b'" by (cases b) auto
    with bc(1) have yx: "y = x" and xs: "xs = b' @ 0x2E # c" by simp_all
    from bc(4) b' yx have x: "not_space_at x" and nb: "list_all not_space_at b'"
      by simp_all
    show "match_domain (x # xs)"
    proof (cases "b' = []")
      case True
      with xs bc(3,5) x show ?thesis by (simp add: match_tld_def)
    next
      case False
      with xs bc(3,5) nb have "\<exists>b c. xs = b @ 0x2E # c \<and> b \<noteq> [] \<and> c \<noteq> [] \<and>
            list_all not_space_at b \<and> list_all not_space_at c"
        by (intro exI [of _ b'] exI [of _ c]) simp
      then have "match_domain xs" by (simp only: Cons.IH)
      with x show ?thesis by simp
    qed
  qed
qed

lemma match_local_iff:
  "match_local s =
     (\<exists>b c. s = b @ 0x40 # c \<and> b \<noteq> [] \<and> list_all not_space_at b \<and> match_domain c)"
proof (induction s)
  case Nil
  then show ?case by simp
next
  case (Cons x xs)
  show ?case
  proof
    assume m: "match_local (x # xs)"
    then have x: "not_space_at x" by simp
    from m have "(\<exists>ds. xs = 0x40 # ds \<and> match_domain ds) \<or> match_local xs"
      by (cases xs) simp_all
    then consider ds where "xs = 0x40 # ds" "match_domain ds" | "match_local xs"
      by blast
    then show "\<exists>b c. x # xs = b @ 0x40 # c \<and> b \<noteq> [] \<and> list_all not_space_at b \<and> match_domain c"
    proof cases
      case 1
      with x have "x # xs = [x] @ 0x40 # ds \<and> [x] \<noteq> [] \<and> list_all not_space_at [x] \<and> match_domain ds"
        by simp
      then show ?thesis by (intro exI)
    next
      case 2
      then have "\<exists>b c. xs = b @ 0x40 # c \<and> b \<noteq> [] \<and> list_all not_space_at b \<and> match_domain c"
        by (simp only: Cons.IH)
      then obtain b c where "xs = b @ 0x40 # c" "b \<noteq> []"
        "list_all not_space_at b" "match_domain c" by blast
      with x have "x # xs = (x # b) @ 0x40 # c \<and> x # b \<noteq> [] \<and> list_all not_space_at (x # b) \<and> match_domain c"
        by simp
      then show ?thesis by (intro exI)
    qed
  next
    assume "\<exists>b c. x # xs = b @ 0x40 # c \<and> b \<noteq> [] \<and> list_all not_space_at b \<and> match_domain c"
    then obtain b c where bc: "x # xs = b @ 0x40 # c" "b \<noteq> []"
        "list_all not_space_at b" "match_domain c" by blast
    from bc(2) obtain y b' where b': "b = y # b'" by (cases b) auto
    with bc(1) have yx: "y = x" and xs: "xs = b' @ 0x40 # c" by simp_all
    from bc(3) b' yx have x: "not_space_at x" and nb: "list_all not_space_at b'"
      by simp_all
    show "match_local (x # xs)"
    proof (cases "b' = []")
      case True
      with xs bc(4) x show ?thesis by simp
    next
      case False
      with xs bc(4) nb have "\<exists>b c. xs = b @ 0x40 # c \<and> b \<noteq> [] \<and> list_all not_space_at b \<and> match_domain c"
        by (intro exI [of _ b'] exI [of _ c]) simp
      then have "match_local xs" by (simp only: Cons.IH)
      with x show ?thesis by simp
    qed
  qed
qed

lemma emailRegex_test_iff:
  "emailRegex_test s =
     (\<exists>a b c. s = a @ [0x40] @ b @ [0x2E] @ c \<and> a \<noteq> [] \<and> b \<noteq> [] \<and> c \<noteq> [] \<and>
        list_all not_space_at a \<and> list_all not_space_at b \<and> list_all not_space_at c)"
proof
  assume "emailRegex_test s"
  then obtain a r where "s = a @ 0x40 # r" "a \<noteq> []" "list_all not_space_at a" "match_domain r"
    unfolding emailRegex_test_def match_local_iff by blast
  moreover from this(4) obtain b c where "r = b @ 0x2E # c" "b \<noteq> []" "c \<noteq> []"
        "list_all not_space_at b" "list_all not_space_at c"
    unfolding match_domain_iff by blast
  ultimately have "s = a @ [0x40] @ b @ [0x2E] @ c \<and> a \<noteq> [] \<and> b \<noteq> [] \<and> c \<noteq> [] \<and>
        list_all not_space_at a \<and> list_all not_space_at b \<and> list_all not_space_at c"
    by simp
  then show "\<exists>a b c. s = a @ [0x40] @ b @ [0x2E] @ c \<and> a \<noteq> [] \<and> b \<noteq> [] \<and> c \<noteq> [] \<and>
        list_all not_space_at a \<and> list_all not_space_at b \<and> list_all not_space_at c"
    by (intro exI)
next
  assume "\<exists>a b c. s = a @ [0x40] @ b @ [0x2E] @ c \<and> a \<noteq> [] \<and> b \<noteq> [] \<and> c \<noteq> [] \<and>
        list_all not_space_at a \<and> list_all not_space_at b \<and> list_all not_space_at c"
  then obtain a b c where abc: "s = a @ [0x40] @ b @ [0x2E] @ c" "a \<noteq> []" "b \<noteq> []" "c \<noteq> []"
        "list_all not_space_at a" "list_all not_space_at b" "list_all not_space_at c"
    by blast
  then have "\<exists>b' c'. b @ 0x2E # c = b' @ 0x2E # c' \<and> b' \<noteq> [] \<and> c' \<noteq> [] \<and>
            list_all not_space_at b' \<and> list_all not_space_at c'"
    by (intro exI [of _ b] exI [of _ c]) simp
  then have "match_domain (b @ 0x2E # c)"
    by (simp only: match_domain_iff)
  with abc have "\<exists>a' r. s = a' @ 0x40 # r \<and> a' \<noteq> [] \<and> list_all not_space_at a' \<and> match_domain r"
    by (intro exI [of _ a] exI [of _ "b @ 0x2E # c"]) simp
  then show "emailRegex_test s"
    by (simp only: emailRegex_test_def match_local_iff)
qed

subsection \<open>Facts about traces\<close>

lemma invocations_Nil: "invocations [] = 0"
  by (simp add: invocations_def)

lemma invocations_append: "invocations (t @ u) = invocations t + invocations u"
  by (simp add: invocations_def)

lemma invocations_SendMail: "invocations [SendMail m] = 1"
  by (simp add: invocations_def)

lemma invocations_Send_Sleep: "invocations [SendMail m, Sleep d] = 1"
  by (simp add: invocations_def)

lemma sleeps_append: "sleeps (t @ u) = sleeps t @ sleeps u"
  by (induction t rule: sleeps.induct) simp_all

subsection \<open>Single steps of the loop and runs of failed attempts\<close>

lemmas retry_loop_unfold = retry_loop.simps

declare retry_loop.simps [simp del]

lemma invocations_rounds:
  "invocations (concat (map (\<lambda>i. [SendMail mo, Sleep (f i)]) xs)) = length xs"
  by (induction xs) (simp_all add: invocations_def)

lemma sleeps_rounds:
  "sleeps (concat (map (\<lambda>i. [SendMail mo, Sleep (f i)]) xs)) = map f xs"
  by (induction xs) simp_all

lemma sleeps_SendMail: "sleeps [SendMail m] = []"
  by simp

lemma retry_loop_exit:
  "\<not> attempt \<le> maxRetries \<Longrightarrow>
     retry_loop tr mo maxRetries attempt lastError t = (Inl lastError, t)"
  by (simp add: retry_loop_unfold)

lemma retry_loop_success:
  "attempt \<le> maxRetries \<Longrightarrow> tr (Suc (invocations t)) mo = Inr ok \<Longrightarrow>
     retry_loop tr mo maxRetries attempt lastError t = (Inr ok, t @ [SendMail mo])"
  by (subst retry_loop_unfold) simp

lemma retry_loop_retry:
  "attempt < maxRetries \<Longrightarrow> tr (Suc (invocations t)) mo = Inl e \<Longrightarrow>
     retry_loop tr mo maxRetries attempt lastError t =
     retry_loop tr mo maxRetries (attempt + 1) (Error e)
       (t @ [SendMail mo, Sleep (2 ^ nat attempt * 1000)])"
  by (subst retry_loop_unfold) simp

lemma retry_loop_give_up:
  "tr (Suc (invocations t)) mo = Inl e \<Longrightarrow>
     retry_loop tr mo maxRetries maxRetries lastError t = (Inl (Error e), t @ [SendMail mo])"
  by (subst retry_loop_unfold, simp, subst retry_loop_unfold, simp)

lemma retry_loop_failures:
  assumes "\<forall>i<k. isl (tr (Suc (invocations t + i)) mo)" and "1 \<le> a" and "a + int k \<le> n"
  shows "\<exists>le'. (k = 0 \<longrightarrow> le' = le) \<and>
     retry_loop tr mo n a le t =
     retry_loop tr mo n (a + int k) le'
       (t @ concat (map (\<lambda>i. [SendMail mo, Sleep (2 ^ i * 1000)]) [nat a..<nat a + k]))"
  using assms
proof (induction k arbitrary: a le t)
  case 0
  then show ?case by simp
next
  case (Suc k)
  from Suc.prems(1) have "isl (tr (Suc (invocations t)) mo)"
    by (metis add.right_neutral zero_less_Suc)
  then obtain e where e: "tr (Suc (invocations t)) mo = Inl e"
    by (auto simp: isl_def)
  let ?t = "t @ [SendMail mo, Sleep (2 ^ nat a * 1000)]"
  have inv: "invocations ?t = Suc (invocations t)"
    by (simp add: invocations_append invocations_Send_Sleep)
  from Suc.prems have lt: "a < n" by simp
  have step: "retry_loop tr mo n a le t = retry_loop tr mo n (a + 1) (Error e) ?t"
    using lt e by (rule retry_loop_retry)
  have "\<forall>i<k. isl (tr (Suc (invocations ?t + i)) mo)"
  proof (intro allI impI)
    fix i assume "i < k"
    then have "Suc i < Suc k" by simp
    with Suc.prems(1) have "isl (tr (Suc (invocations t + Suc i)) mo)"
      by blast
    then show "isl (tr (Suc (invocations ?t + i)) mo)"
      by (simp add: inv)
  qed
  moreover have "1 \<le> a + 1" using Suc.prems(2) by simp
  moreover have "a + 1 + int k \<le> n" using Suc.prems(3) by simp
  ultimately obtain le' where
    "retry_loop tr mo n (a + 1) (Error e) ?t =
     retry_loop tr mo n (a + 1 + int k) le'
       (?t @ concat (map (\<lambda>i. [SendMail mo, Sleep (2 ^ i * 1000)]) [nat (a + 1)..<nat (a + 1) + k]))"
    using Suc.IH [of ?t "a + 1" "Error e"] by blast
  moreover have "nat (a + 1) = Suc (nat a)" using Suc.prems(2) by simp
  moreover have "[nat a..<nat a + Suc k] = nat a # [Suc (nat a)..<Suc (nat a) + k]"
    by (simp add: upt_conv_Cons)
  ultimately show ?case
    using step by (auto simp: add.assoc)
qed


lemma failures_from_start:
  assumes "\<forall>i\<in>{1..k}. isl (tr (invocations t + i) mo)" and "1 + int k \<le> n"
  shows "\<exists>le'. sendEmailWithRetry tr mo n t =
     retry_loop tr mo n (1 + int k) le'
       (t @ concat (map (\<lambda>i. [SendMail mo, Sleep (2 ^ i * 1000)]) [1..<Suc k]))"
proof -
  have "\<forall>i<k. isl (tr (Suc (invocations t + i)) mo)"
  proof (intro allI impI)
    fix i assume "i < k"
    then have "Suc i \<in> {1..k}" by simp
    with assms(1) have "isl (tr (invocations t + Suc i) mo)" by blast
    then show "isl (tr (Suc (invocations t + i)) mo)" by simp
  qed
  with assms(2) show ?thesis
    using retry_loop_failures [where tr = tr and mo = mo and t = t and k = k and a = 1
        and n = n and le = Undefined]
    by (auto simp: sendEmailWithRetry_def)
qed

lemma all_fail_run:
  assumes "1 \<le> n" and "\<forall>i\<in>{1..nat n}. isl (tr (invocations t + i) mo)"
    and "tr (invocations t + nat n) mo = Inl e"
  shows "sendEmailWithRetry tr mo n t =
     (Inl (Error e),
      t @ concat (map (\<lambda>i. [SendMail mo, Sleep (2 ^ i * 1000)]) [1..<nat n]) @ [SendMail mo])"
proof -
  from assms(1) obtain k where k: "nat n = Suc k"
    by (cases "nat n") auto
  let ?t = "t @ concat (map (\<lambda>i. [SendMail mo, Sleep (2 ^ i * 1000)]) [1..<Suc k])"
  have n: "1 + int k = n" using assms(1) k by linarith
  have "\<forall>i\<in>{1..k}. isl (tr (invocations t + i) mo)"
    using assms(2) k by auto
  with n obtain le' where run: "sendEmailWithRetry tr mo n t = retry_loop tr mo n n le' ?t"
    using failures_from_start [where tr = tr and mo = mo and t = t and k = k and n = n]
    by auto
  have "invocations ?t = invocations t + k"
    by (simp add: invocations_append invocations_rounds del: upt_Suc)
  then have "tr (Suc (invocations ?t)) mo = Inl e"
    using assms(3) k by simp
  then have "retry_loop tr mo n n le' ?t = (Inl (Error e), ?t @ [SendMail mo])"
    by (rule retry_loop_give_up)
  with run show ?thesis by (simp only: k append_assoc)
qed

lemma success_run:
  assumes "1 \<le> k" and "int k \<le> n" and "\<forall>i\<in>{1..<k}. isl (tr (invocations t + i) mo)"
    and "tr (invocations t + k) mo = Inr ok"
  shows "sendEmailWithRetry tr mo n t =
     (Inr ok,
      t @ concat (map (\<lambda>i. [SendMail mo, Sleep (2 ^ i * 1000)]) [1..<k]) @ [SendMail mo])"
proof -
  from assms(1) obtain j where j: "k = Suc j"
    by (cases k) auto
  let ?t = "t @ concat (map (\<lambda>i. [SendMail mo, Sleep (2 ^ i * 1000)]) [1..<Suc j])"
  have n: "1 + int j \<le> n" "1 + int j = int k" using assms(2) j by simp_all
  have "\<forall>i\<in>{1..j}. isl (tr (invocations t + i) mo)"
    using assms(3) j by auto
  with n obtain le' where run: "sendEmailWithRetry tr mo n t = retry_loop tr mo n (int k) le' ?t"
    using failures_from_start [where tr = tr and mo = mo and t = t and k = j and n = n]
    by auto
  have "invocations ?t = invocations t + j"
    by (simp add: invocations_append invocations_rounds del: upt_Suc)
  then have "tr (Suc (invocations ?t)) mo = Inr ok"
    using assms(4) j by simp
  with assms(2) have "retry_loop tr mo n (int k) le' ?t = (Inr ok, ?t @ [SendMail mo])"
    by (rule retry_loop_success)
  with run show ?thesis by (simp only: j append_assoc)
qed

lemma same_failures_same_loop:
  "\<forall>i. isl (tra i mo) = isl (trb i mo) \<Longrightarrow>
     snd (retry_loop tra mo n a lea t) = snd (retry_loop trb mo n a leb t) \<and>
     isl (fst (retry_loop tra mo n a lea t)) = isl (fst (retry_loop trb mo n a leb t))"
proof (induction tra mo n a lea t arbitrary: leb rule: retry_loop.induct)
  case (1 tra mo n a lea t)
  note assms = "1.prems"
  show ?case
  proof (cases "a \<le> n")
    case False
    then show ?thesis by (simp add: retry_loop_exit)
  next
    case True
    from assms have same: "isl (tra (Suc (invocations t)) mo) = isl (trb (Suc (invocations t)) mo)"
      by blast
    show ?thesis
    proof (cases "tra (Suc (invocations t)) mo")
      case (Inr ok1)
      with same obtain ok2 where "trb (Suc (invocations t)) mo = Inr ok2"
        by (cases "trb (Suc (invocations t)) mo") auto
      with Inr True show ?thesis by (simp add: retry_loop_success)
    next
      case (Inl e1)
      with same obtain e2 where e2: "trb (Suc (invocations t)) mo = Inl e2"
        by (cases "trb (Suc (invocations t)) mo") auto
      let ?t = "if a < n then t @ [SendMail mo, Sleep (2 ^ nat a * 1000)] else t @ [SendMail mo]"
      have s1: "retry_loop tra mo n a lea t = retry_loop tra mo n (a + 1) (Error e1) ?t"
        using True Inl by (subst retry_loop_unfold) simp
      have s2: "retry_loop trb mo n a leb t = retry_loop trb mo n (a + 1) (Error e2) ?t"
        using True e2 by (subst retry_loop_unfold) simp
      from "1.IH" [OF True Inl assms, of "Error e2"] s1 s2 show ?thesis by simp
    qed
  qed
qed

subsection \<open>The loop never runs for a cap below one\<close>

text \<open>
  Claim C9. Called with \<^verbatim>\<open>maxRetries = 0\<close>, the loop body never runs: the transport
  is not invoked, nothing is slept, and the value thrown is \<^verbatim>\<open>undefined\<close>, since
  \<^verbatim>\<open>lastError\<close> was never assigned.
\<close>

theorem sendEmailWithRetry_zero:
  "sendEmailWithRetry transporter mo 0 t = (Inl Undefined, t)"
  by (simp add: sendEmailWithRetry_def retry_loop_unfold)

subsection \<open>Every attempt fails\<close>

text \<open>
  Claim C1. For every cap \<open>n \<ge> 1\<close>, if each of the next \<open>n\<close> transport invocations
  fails, \<^verbatim>\<open>sendEmailWithRetry\<close> invokes the transport exactly \<open>n\<close> times and sleeps
  exactly \<open>n - 1\<close> times, once after each attempt but the last, and the sleep after
  attempt \<open>i\<close> lasts \<open>2 ^ i * 1000\<close> milliseconds (2 s after attempt 1, 4 s after
  attempt 2).
\<close>

theorem all_attempts_fail_backoff:
  assumes "1 \<le> n" and "\<forall>i\<in>{1..nat n}. isl (tr (invocations t + i) mo)"
  shows "snd (sendEmailWithRetry tr mo n t) =
           t @ concat (map (\<lambda>i. [SendMail mo, Sleep (2 ^ i * 1000)]) [1..<nat n]) @ [SendMail mo]
       \<and> invocations (snd (sendEmailWithRetry tr mo n t)) = invocations t + nat n
       \<and> sleeps (snd (sendEmailWithRetry tr mo n t)) =
           sleeps t @ map (\<lambda>i. 2 ^ i * 1000) [1..<nat n]
       \<and> length (sleeps (snd (sendEmailWithRetry tr mo n t))) = length (sleeps t) + (nat n - 1)"
proof -
  from assms have "isl (tr (invocations t + nat n) mo)" by simp
  then obtain e where "tr (invocations t + nat n) mo = Inl e"
    by (auto simp: isl_def)
  with assms have run: "sendEmailWithRetry tr mo n t =
     (Inl (Error e),
      t @ concat (map (\<lambda>i. [SendMail mo, Sleep (2 ^ i * 1000)]) [1..<nat n]) @ [SendMail mo])"
    by (rule all_fail_run)
  have "length [1..<nat n] + 1 = nat n" using assms(1) by simp
  then show ?thesis
    unfolding run
    by (simp add: invocations_append invocations_rounds invocations_SendMail
        sleeps_append sleeps_rounds del: upt_Suc)
qed

text \<open>Three failing attempts: three invocations, sleeps of 2 s and 4 s.\<close>

theorem all_attempts_fail_backoff_witness:
  "invocations (snd (sendEmailWithRetry (always_fails auth_error) sample_mail 3 [])) = 3
   \<and> sleeps (snd (sendEmailWithRetry (always_fails auth_error) sample_mail 3 [])) = [2000, 4000]"
proof -
  have h1: "(1::int) \<le> 3" by simp
  have h2: "\<forall>i\<in>{1..nat 3}. isl (always_fails auth_error (invocations [] + i) sample_mail)"
    by (simp add: always_fails_def)
  have "[1..<3] = [1, 2::nat]" by (simp add: upt_rec)
  with all_attempts_fail_backoff [where tr = "always_fails auth_error" and mo = sample_mail
      and t = "[]" and n = 3, OF h1 h2]
  show ?thesis
    by (simp add: invocations_def)
qed

subsection \<open>Success on attempt k\<close>

text \<open>
  Claim C2. For every cap \<open>n \<ge> 1\<close>, if the transport fails on the attempts before the
  \<open>k\<close>-th and succeeds on attempt \<open>k \<le> n\<close>, \<^verbatim>\<open>sendEmailWithRetry\<close> returns after
  exactly \<open>k\<close> transport invocations; the trace ends with the successful invocation, so
  no attempt and no sleep follows it; and the value returned is the very \<^verbatim>\<open>info\<close>
  object of the transport, message identifier and response string untouched.
\<close>

theorem success_on_attempt_k:
  assumes "1 \<le> k" and "int k \<le> n"
    and "\<forall>i\<in>{1..<k}. isl (tr (invocations t + i) mo)"
    and "tr (invocations t + k) mo = Inr ok"
  shows "fst (sendEmailWithRetry tr mo n t) = Inr ok
       \<and> snd (sendEmailWithRetry tr mo n t) =
           t @ concat (map (\<lambda>i. [SendMail mo, Sleep (2 ^ i * 1000)]) [1..<k]) @ [SendMail mo]
       \<and> invocations (snd (sendEmailWithRetry tr mo n t)) = invocations t + k
       \<and> sleeps (snd (sendEmailWithRetry tr mo n t)) = sleeps t @ map (\<lambda>i. 2 ^ i * 1000) [1..<k]
       \<and> last (snd (sendEmailWithRetry tr mo n t)) = SendMail mo"
proof -
  from assms have run: "sendEmailWithRetry tr mo n t =
     (Inr ok,
      t @ concat (map (\<lambda>i. [SendMail mo, Sleep (2 ^ i * 1000)]) [1..<k]) @ [SendMail mo])"
    by (rule success_run)
  have "length [1..<k] + 1 = k" using assms(1) by simp
  then show ?thesis
    unfolding run
    by (simp add: invocations_append invocations_rounds invocations_SendMail
        sleeps_append sleeps_rounds del: upt_Suc)
qed

text \<open>
  Scenario A (two failures, success on attempt 3 of 3) and an immediate success under a
  cap of 2.
\<close>

theorem success_on_attempt_k_witness:
  "fst (sendEmailWithRetry (succeeds_from 3 auth_error sample_info) sample_mail 3 []) = Inr sample_info
   \<and> invocations (snd (sendEmailWithRetry (succeeds_from 3 auth_error sample_info) sample_mail 3 [])) = 3
   \<and> sleeps (snd (sendEmailWithRetry (succeeds_from 3 auth_error sample_info) sample_mail 3 [])) = [2000, 4000]
   \<and> fst (sendEmailWithRetry (succeeds_from 1 auth_error sample_info) sample_mail 2 []) = Inr sample_info
   \<and> snd (sendEmailWithRetry (succeeds_from 1 auth_error sample_info) sample_mail 2 []) = [SendMail sample_mail]"
proof -
  have h1: "(1::nat) \<le> 3" and h2: "int 3 \<le> 3" by simp_all
  have h3: "\<forall>i\<in>{1..<3}. isl (succeeds_from 3 auth_error sample_info (invocations [] + i) sample_mail)"
    by (simp add: succeeds_from_def invocations_Nil)
  have h4: "succeeds_from 3 auth_error sample_info (invocations [] + 3) sample_mail = Inr sample_info"
    by (simp add: succeeds_from_def invocations_Nil)
  have g1: "(1::nat) \<le> 1" and g2: "int 1 \<le> 2" by simp_all
  have g3: "\<forall>i\<in>{1..<1}. isl (succeeds_from 1 auth_error sample_info (invocations [] + i) sample_mail)"
    by simp
  have g4: "succeeds_from 1 auth_error sample_info (invocations [] + 1) sample_mail = Inr sample_info"
    by (simp add: succeeds_from_def invocations_Nil)
  have "[1..<3] = [1, 2::nat]" by (simp add: upt_rec)
  with success_on_attempt_k [where tr = "succeeds_from 3 auth_error sample_info"
      and mo = sample_mail and t = "[]" and k = 3 and n = 3, OF h1 h2 h3 h4]
    success_on_attempt_k [where tr = "succeeds_from 1 auth_error sample_info"
      and mo = sample_mail and t = "[]" and k = 1 and n = 2, OF g1 g2 g3 g4]
  show ?thesis
    by (simp add: invocations_def)
qed

subsection \<open>What a failed delivery hands to its caller\<close>

text \<open>
  Claim C3, amended. When every attempt fails under a cap \<open>n \<ge> 1\<close>,
  \<^verbatim>\<open>sendEmailWithRetry\<close> throws the error object of the last attempt, unchanged, after
  exactly \<open>n\<close> transport invocations. The thrown value is that error alone.
\<close>

theorem all_attempts_fail_throws_last_error:
  assumes "1 \<le> n" and "\<forall>i\<in>{1..nat n}. isl (tr (invocations t + i) mo)"
    and "tr (invocations t + nat n) mo = Inl e"
  shows "fst (sendEmailWithRetry tr mo n t) = Inl (Error e)
       \<and> invocations (snd (sendEmailWithRetry tr mo n t)) = invocations t + nat n"
proof -
  from assms have run: "sendEmailWithRetry tr mo n t =
     (Inl (Error e),
      t @ concat (map (\<lambda>i. [SendMail mo, Sleep (2 ^ i * 1000)]) [1..<nat n]) @ [SendMail mo])"
    by (rule all_fail_run)
  have "length [1..<nat n] + 1 = nat n" using assms(1) by simp
  then show ?thesis
    unfolding run
    by (simp add: invocations_append invocations_rounds invocations_SendMail del: upt_Suc)
qed

text \<open>The first attempt fails on authentication, the second times out: the timeout is thrown.\<close>

theorem all_attempts_fail_throws_last_error_witness:
  "fst (sendEmailWithRetry (\<lambda>i m. if i < 2 then Inl auth_error else Inl timeout_error)
          sample_mail 2 []) = Inl (Error timeout_error)
   \<and> invocations (snd (sendEmailWithRetry
          (\<lambda>i m. if i < 2 then Inl auth_error else Inl timeout_error) sample_mail 2 [])) = 2"
proof -
  let ?tr = "\<lambda>(i::nat) (m::mailOptions). if i < 2 then Inl auth_error else (Inl timeout_error :: js_error + info)"
  have h1: "(1::int) \<le> 2" by simp
  have h2: "\<forall>i\<in>{1..nat 2}. isl (?tr (invocations [] + i) sample_mail)"
    by simp
  have h3: "?tr (invocations [] + nat 2) sample_mail = Inl timeout_error"
    by (simp add: invocations_Nil)
  from all_attempts_fail_throws_last_error [where tr = ?tr and mo = sample_mail
      and t = "[]" and n = 2, OF h1 h2 h3]
  show ?thesis
    by (simp add: invocations_def)
qed

text \<open>
  Claim C3 as stated fails: the outcome of a failed delivery carries no attempt count.
  One attempt and two attempts against the same failing transport end in the same
  thrown value, although one and two invocations were made.
\<close>

theorem failure_outcome_omits_attempt_count:
  "fst (sendEmailWithRetry (always_fails auth_error) sample_mail 1 []) = Inl (Error auth_error)
   \<and> fst (sendEmailWithRetry (always_fails auth_error) sample_mail 2 []) = Inl (Error auth_error)
   \<and> invocations (snd (sendEmailWithRetry (always_fails auth_error) sample_mail 1 [])) = 1
   \<and> invocations (snd (sendEmailWithRetry (always_fails auth_error) sample_mail 2 [])) = 2"
  by (simp add: sendEmailWithRetry_def retry_loop_unfold always_fails_def invocations_def)

subsection \<open>The kind of error does not steer the loop\<close>

text \<open>
  Claim C4. Two transports that fail on the same invocations, whatever errors they raise,
  drive \<^verbatim>\<open>sendEmailWithRetry\<close> through the same trace: the same number of attempts and
  the same sleeps, and both runs end in a throw or both in a return.
\<close>

theorem retry_ignores_error_kind:
  assumes "\<forall>i. isl (tr1 i mo) = isl (tr2 i mo)"
  shows "snd (sendEmailWithRetry tr1 mo n t) = snd (sendEmailWithRetry tr2 mo n t)
       \<and> invocations (snd (sendEmailWithRetry tr1 mo n t)) =
           invocations (snd (sendEmailWithRetry tr2 mo n t))
       \<and> sleeps (snd (sendEmailWithRetry tr1 mo n t)) = sleeps (snd (sendEmailWithRetry tr2 mo n t))
       \<and> isl (fst (sendEmailWithRetry tr1 mo n t)) = isl (fst (sendEmailWithRetry tr2 mo n t))"
  using same_failures_same_loop [where tra = tr1 and trb = tr2 and mo = mo and n = n
      and a = 1 and lea = Undefined and leb = Undefined and t = t, OF assms]
  by (simp add: sendEmailWithRetry_def)

text \<open>An authentication failure is retried exactly as a timeout is.\<close>

theorem retry_ignores_error_kind_witness:
  "auth_error \<noteq> timeout_error
   \<and> snd (sendEmailWithRetry (always_fails auth_error) sample_mail 2 []) =
       snd (sendEmailWithRetry (always_fails timeout_error) sample_mail 2 [])
   \<and> sleeps (snd (sendEmailWithRetry (always_fails timeout_error) sample_mail 2 [])) = [2000]
   \<and> invocations (snd (sendEmailWithRetry (always_fails timeout_error) sample_mail 2 [])) = 2"
proof -
  have h: "\<forall>i. isl (always_fails auth_error i sample_mail) = isl (always_fails timeout_error i sample_mail)"
    by (simp add: always_fails_def)
  have "auth_error \<noteq> timeout_error"
    by (simp add: auth_error_def timeout_error_def lit_def)
  moreover have "snd (sendEmailWithRetry (always_fails timeout_error) sample_mail 2 []) =
      [SendMail sample_mail, Sleep 2000, SendMail sample_mail]"
    by (simp add: sendEmailWithRetry_def retry_loop_unfold always_fails_def invocations_def)
  ultimately show ?thesis
    using retry_ignores_error_kind [where ?tr1.0 = "always_fails auth_error"
        and ?tr2.0 = "always_fails timeout_error" and mo = sample_mail and n = 2 and t = "[]", OF h]
    by (simp add: invocations_def)
qed

subsection \<open>A cap of one\<close>

text \<open>
  Claim C6. With \<^verbatim>\<open>maxRetries = 1\<close>, as the \<^verbatim>\<open>/test\<close> endpoint calls it,
  \<^verbatim>\<open>sendEmailWithRetry\<close> invokes the transport exactly once and never sleeps, whether
  the attempt succeeds or fails.
\<close>

theorem single_attempt:
  "snd (sendEmailWithRetry tr mo 1 t) = t @ [SendMail mo]
   \<and> invocations (snd (sendEmailWithRetry tr mo 1 t)) = invocations t + 1
   \<and> sleeps (snd (sendEmailWithRetry tr mo 1 t)) = sleeps t
   \<and> fst (sendEmailWithRetry tr mo 1 t) =
       (case tr (Suc (invocations t)) mo of Inl e \<Rightarrow> Inl (Error e) | Inr ok \<Rightarrow> Inr ok)"
proof (cases "tr (Suc (invocations t)) mo")
  case (Inl e)
  then have "sendEmailWithRetry tr mo 1 t = (Inl (Error e), t @ [SendMail mo])"
    unfolding sendEmailWithRetry_def by (rule retry_loop_give_up)
  with Inl show ?thesis
    by (simp add: invocations_append invocations_SendMail sleeps_append)
next
  case (Inr ok)
  then have "sendEmailWithRetry tr mo 1 t = (Inr ok, t @ [SendMail mo])"
    unfolding sendEmailWithRetry_def by (simp add: retry_loop_success)
  with Inr show ?thesis
    by (simp add: invocations_append invocations_SendMail sleeps_append)
qed

subsection \<open>The handler\<close>

text \<open>The three ways a delivery under the handler's cap of 2 can go.\<close>

lemma sendEmailWithRetry_two:
  "sendEmailWithRetry tr mo 2 t =
     (case tr (Suc (invocations t)) mo of
        Inr ok \<Rightarrow> (Inr ok, t @ [SendMail mo])
      | Inl e1 \<Rightarrow>
          (case tr (Suc (Suc (invocations t))) mo of
             Inr ok \<Rightarrow> (Inr ok, t @ [SendMail mo, Sleep 2000, SendMail mo])
           | Inl e2 \<Rightarrow> (Inl (Error e2), t @ [SendMail mo, Sleep 2000, SendMail mo])))"
proof (cases "tr (Suc (invocations t)) mo")
  case (Inr ok)
  then show ?thesis
    by (simp add: sendEmailWithRetry_def retry_loop_success)
next
  case (Inl e1)
  let ?t = "t @ [SendMail mo, Sleep 2000]"
  have step: "sendEmailWithRetry tr mo 2 t = retry_loop tr mo 2 2 (Error e1) ?t"
    unfolding sendEmailWithRetry_def using Inl by (simp add: retry_loop_retry)
  have inv: "Suc (invocations ?t) = Suc (Suc (invocations t))"
    by (simp add: invocations_append invocations_Send_Sleep)
  show ?thesis
  proof (cases "tr (Suc (Suc (invocations t))) mo")
    case (Inr ok)
    then have "retry_loop tr mo 2 2 (Error e1) ?t = (Inr ok, ?t @ [SendMail mo])"
      by (intro retry_loop_success) (simp_all add: inv)
    with step Inl Inr show ?thesis by simp
  next
    case e2: (Inl e2)
    then have "retry_loop tr mo 2 2 (Error e1) ?t = (Inl (Error e2), ?t @ [SendMail mo])"
      by (intro retry_loop_give_up) (simp add: inv)
    with step Inl e2 show ?thesis by simp
  qed
qed

lemma emailRegex_test_Nil: "\<not> emailRegex_test []"
  by (simp add: emailRegex_test_def)

lemma catch_block_Error:
  "catch_block rt (Error e) =
     Inr \<lparr>res_status = snd (classify e), res_success = False, res_error = Some (fst (classify e)),
          res_code = code e, res_messageId = None, res_recipient = None,
          res_timestamp = Some (now rt)\<rparr>"
  by (simp add: case_prod_beta)

text \<open>Every path of the handler ends in a response: no exception leaves it.\<close>

lemma send_confirmation_responds: "\<exists>r. fst (send_confirmation rt tr req_body t) = Inr r"
  by (simp add: send_confirmation_def sendEmailWithRetry_two case_prod_beta
      split: option.splits sum.splits)

text \<open>A request with no parsed body goes straight to the \<^verbatim>\<open>catch\<close> block.\<close>

lemma send_confirmation_unparsed:
  "send_confirmation rt tr None t =
     (Inr \<lparr>res_status = snd (classify \<lparr>message = destructureMessage rt, code = None\<rparr>),
           res_success = False,
           res_error = Some (fst (classify \<lparr>message = destructureMessage rt, code = None\<rparr>)),
           res_code = None, res_messageId = None, res_recipient = None,
           res_timestamp = Some (now rt)\<rparr>, t)"
  by (simp add: send_confirmation_def case_prod_beta)

text \<open>A valid request is answered from the outcome of the delivery under a cap of 2.\<close>

lemma send_confirmation_failure:
  assumes "booking body = Some b" and "email b = Some em" and "emailRegex_test em"
    and "fst (sendEmailWithRetry tr (build_mailOptions rt b (status body) em) 2 t) = Inl (Error e)"
  shows "fst (send_confirmation rt tr (Some body) t) =
     Inr \<lparr>res_status = snd (classify e), res_success = False,
          res_error = Some (fst (classify e)), res_code = code e, res_messageId = None,
          res_recipient = None, res_timestamp = Some (now rt)\<rparr>"
proof -
  from assms(3) have "em \<noteq> []"
    using emailRegex_test_Nil by auto
  with assms show ?thesis
    by (auto simp: send_confirmation_def case_prod_beta split: prod.splits)
qed

lemma send_confirmation_success:
  assumes "booking body = Some b" and "email b = Some em" and "emailRegex_test em"
    and "fst (sendEmailWithRetry tr (build_mailOptions rt b (status body) em) 2 t) = Inr ok"
  shows "fst (send_confirmation rt tr (Some body) t) =
     Inr \<lparr>res_status = 200, res_success = True, res_error = None, res_code = None,
          res_messageId = Some (messageId ok), res_recipient = Some em,
          res_timestamp = Some (now rt)\<rparr>"
proof -
  from assms(3) have "em \<noteq> []"
    using emailRegex_test_Nil by auto
  with assms show ?thesis
    by (auto simp: send_confirmation_def split: prod.splits)
qed

subsection \<open>Validation comes before delivery\<close>

text \<open>
  For a parsed body with no booking, or whose booking has no email, or whose email fails
  the regular expression, the handler answers HTTP 400 with \<^verbatim>\<open>success: false\<close> and
  leaves the trace as it was. (An empty email is falsy in the source; it also fails the
  regular expression.)
\<close>

lemma parsed_invalid_request_rejected:
  assumes "booking body = None \<or>
     (\<exists>b. booking body = Some b \<and>
        (email b = None \<or> (\<exists>e. email b = Some e \<and> \<not> emailRegex_test e)))"
  shows "(\<exists>r. fst (send_confirmation rt tr (Some body) t) = Inr r \<and> res_status r = 400
            \<and> \<not> res_success r)
       \<and> snd (send_confirmation rt tr (Some body) t) = t"
  using assms
  by (auto simp: send_confirmation_def bad_request_def emailRegex_test_Nil split: option.splits)

text \<open>No request that lacks a valid recipient, parsed or not, reaches the transport.\<close>

lemma invalid_request_sends_nothing:
  assumes "req_body = None \<or>
     (\<exists>body. req_body = Some body \<and>
        (booking body = None \<or>
         (\<exists>b. booking body = Some b \<and>
            (email b = None \<or> (\<exists>e. email b = Some e \<and> \<not> emailRegex_test e)))))"
  shows "snd (send_confirmation rt tr req_body t) = t"
  using assms
  by (auto simp: send_confirmation_def emailRegex_test_Nil split: option.splits)

text \<open>No booking, a booking without email, and an email without \<open>@\<close>.\<close>

lemma parsed_invalid_request_examples:
  "fst (send_confirmation sample_runtime (always_fails auth_error)
          (Some \<lparr>booking = None, status = Some (lit ''confirmed'')\<rparr>) []) =
     Inr (bad_request (lit ''Missing required booking data''))
   \<and> fst (send_confirmation sample_runtime (always_fails auth_error)
          (Some \<lparr>booking = Some (sample_booking\<lparr>email := None\<rparr>), status = None\<rparr>) []) =
     Inr (bad_request (lit ''Missing required booking data''))
   \<and> fst (send_confirmation sample_runtime (always_fails auth_error)
          (Some \<lparr>booking = Some (sample_booking\<lparr>email := Some (lit ''guest.example.com'')\<rparr>),
                 status = None\<rparr>) []) =
     Inr (bad_request (lit ''Invalid email address''))"
proof -
  have "\<not> emailRegex_test (lit ''guest.example.com'')"
    by (simp add: lit_def emailRegex_test_def match_tld_def not_space_at_def is_space_def)
  moreover have "lit ''guest.example.com'' \<noteq> []" by (simp add: lit_def)
  ultimately show ?thesis
    by (simp add: send_confirmation_def)
qed

text \<open>
  Claim C7. The claim asks for HTTP 400 with \<^verbatim>\<open>success: false\<close> and no transport
  invocation on every request that lacks a booking, lacks \<^verbatim>\<open>booking.email\<close> or carries
  an email that fails the check. The handler does so for every parsed body, but not for
  a request with no parsed body: the destructuring of the undefined \<^verbatim>\<open>req.body\<close> throws
  before the validation runs, and the \<^verbatim>\<open>catch\<close> block answers HTTP 500 with the
  engine's message. The transport is still not invoked.
\<close>

theorem unparsed_body_answers_500:
  "send_confirmation sample_runtime tr None t =
     (Inr \<lparr>res_status = 500, res_success = False,
           res_error = Some (destructureMessage sample_runtime), res_code = None,
           res_messageId = None, res_recipient = None,
           res_timestamp = Some (now sample_runtime)\<rparr>, t)"
proof -
  have "classify \<lparr>message = destructureMessage sample_runtime, code = None\<rparr> =
      (destructureMessage sample_runtime, 500)"
    by (simp add: classify_def sample_runtime_def lit_def)
  then show ?thesis
    by (simp add: send_confirmation_unparsed)
qed

subsection \<open>Classification of the final error\<close>

text \<open>
  Claim C5. The classification is a function of the error object alone, defined on every
  error object. Read in the order of the table: an error whose message contains
  \<^verbatim>\<open>timeout\<close> or whose code is \<^verbatim>\<open>ETIMEDOUT\<close> maps to 504 with the timeout message;
  otherwise the codes \<^verbatim>\<open>EAUTH\<close>, \<^verbatim>\<open>ECONNECTION\<close> and \<^verbatim>\<open>ENOTFOUND\<close> map to 500 with
  their own messages; any other error maps to 500 with its raw message. The status is
  always 500 or 504, and the \<^verbatim>\<open>catch\<close> block turns every error object into a response
  with that status and message. The handler answers a failed delivery with exactly that
  response for the error the delivery threw, and a request with no parsed body with that
  response for the engine's \<^verbatim>\<open>TypeError\<close>. Since the handler retries with a cap of 2,
  what reaches its \<^verbatim>\<open>catch\<close> block is always an error object, so every request gets a
  response.
\<close>

theorem error_classification:
  "(includes_js (message e) (lit ''timeout'') \<or> code e = Some (lit ''ETIMEDOUT'') \<longrightarrow>
      classify e = (lit ''Connection to Gmail timed out. Please try again.'', 504))
   \<and> (\<not> includes_js (message e) (lit ''timeout'') \<and> code e = Some (lit ''EAUTH'') \<longrightarrow>
      classify e =
        (lit ''Email authentication failed. Check your Gmail App Password on Render.'', 500))
   \<and> (\<not> includes_js (message e) (lit ''timeout'') \<and> code e = Some (lit ''ECONNECTION'') \<longrightarrow>
      classify e =
        (lit ''Cannot connect to Gmail servers. Check network or firewall settings.'', 500))
   \<and> (\<not> includes_js (message e) (lit ''timeout'') \<and> code e = Some (lit ''ENOTFOUND'') \<longrightarrow>
      classify e = (lit ''Cannot resolve Gmail server. Network issue.'', 500))
   \<and> (\<not> includes_js (message e) (lit ''timeout'') \<and>
      code e \<notin> {Some (lit ''ETIMEDOUT''), Some (lit ''EAUTH''), Some (lit ''ECONNECTION''),
                 Some (lit ''ENOTFOUND'')} \<longrightarrow>
      classify e = (message e, 500))
   \<and> snd (classify e) \<in> {500, 504}
   \<and> catch_block rt (Error e) =
       Inr \<lparr>res_status = snd (classify e), res_success = False,
            res_error = Some (fst (classify e)), res_code = code e, res_messageId = None,
            res_recipient = None, res_timestamp = Some (now rt)\<rparr>
   \<and> (booking body = Some b \<and> email b = Some em \<and> emailRegex_test em \<and>
        fst (sendEmailWithRetry tr (build_mailOptions rt b (status body) em) 2 t) =
          Inl (Error e) \<longrightarrow>
        fst (send_confirmation rt tr (Some body) t) =
          Inr \<lparr>res_status = snd (classify e), res_success = False,
               res_error = Some (fst (classify e)), res_code = code e, res_messageId = None,
               res_recipient = None, res_timestamp = Some (now rt)\<rparr>)
   \<and> fst (send_confirmation rt tr None t) =
        Inr \<lparr>res_status = snd (classify \<lparr>message = destructureMessage rt, code = None\<rparr>),
             res_success = False,
             res_error = Some (fst (classify \<lparr>message = destructureMessage rt, code = None\<rparr>)),
             res_code = None, res_messageId = None, res_recipient = None,
             res_timestamp = Some (now rt)\<rparr>
   \<and> (\<exists>r. fst (send_confirmation rt tr req_body t) = Inr r)"
proof -
  have codes: "lit ''EAUTH'' \<noteq> lit ''ETIMEDOUT''" "lit ''ECONNECTION'' \<noteq> lit ''ETIMEDOUT''"
    "lit ''ENOTFOUND'' \<noteq> lit ''ETIMEDOUT''" "lit ''ECONNECTION'' \<noteq> lit ''EAUTH''"
    "lit ''ENOTFOUND'' \<noteq> lit ''EAUTH''" "lit ''ENOTFOUND'' \<noteq> lit ''ECONNECTION''"
    by (simp_all add: lit_def)
  have 1: "includes_js (message e) (lit ''timeout'') \<or> code e = Some (lit ''ETIMEDOUT'') \<longrightarrow>
      classify e = (lit ''Connection to Gmail timed out. Please try again.'', 504)"
    by (simp add: classify_def)
  have 2: "\<not> includes_js (message e) (lit ''timeout'') \<and> code e = Some (lit ''EAUTH'') \<longrightarrow>
      classify e =
        (lit ''Email authentication failed. Check your Gmail App Password on Render.'', 500)"
    using codes by (simp add: classify_def)
  have 3: "\<not> includes_js (message e) (lit ''timeout'') \<and> code e = Some (lit ''ECONNECTION'') \<longrightarrow>
      classify e =
        (lit ''Cannot connect to Gmail servers. Check network or firewall settings.'', 500)"
    using codes by (simp add: classify_def)
  have 4: "\<not> includes_js (message e) (lit ''timeout'') \<and> code e = Some (lit ''ENOTFOUND'') \<longrightarrow>
      classify e = (lit ''Cannot resolve Gmail server. Network issue.'', 500)"
    using codes by (simp add: classify_def)
  have 5: "\<not> includes_js (message e) (lit ''timeout'') \<and>
      code e \<notin> {Some (lit ''ETIMEDOUT''), Some (lit ''EAUTH''), Some (lit ''ECONNECTION''),
                 Some (lit ''ENOTFOUND'')} \<longrightarrow>
      classify e = (message e, 500)"
    by (simp add: classify_def)
  have 6: "snd (classify e) \<in> {500, 504}"
    by (simp add: classify_def)
  have 7: "catch_block rt (Error e) =
       Inr \<lparr>res_status = snd (classify e), res_success = False,
            res_error = Some (fst (classify e)), res_code = code e, res_messageId = None,
            res_recipient = None, res_timestamp = Some (now rt)\<rparr>"
    by (rule catch_block_Error)
  have 8: "\<exists>r. fst (send_confirmation rt tr req_body t) = Inr r"
    by (rule send_confirmation_responds)
  have 9: "booking body = Some b \<and> email b = Some em \<and> emailRegex_test em \<and>
        fst (sendEmailWithRetry tr (build_mailOptions rt b (status body) em) 2 t) =
          Inl (Error e) \<longrightarrow>
        fst (send_confirmation rt tr (Some body) t) =
          Inr \<lparr>res_status = snd (classify e), res_success = False,
               res_error = Some (fst (classify e)), res_code = code e, res_messageId = None,
               res_recipient = None, res_timestamp = Some (now rt)\<rparr>"
    using send_confirmation_failure [where body = body and b = b and em = em and tr = tr
        and rt = rt and t = t and e = e]
    by blast
  have 10: "fst (send_confirmation rt tr None t) =
        Inr \<lparr>res_status = snd (classify \<lparr>message = destructureMessage rt, code = None\<rparr>),
             res_success = False,
             res_error = Some (fst (classify \<lparr>message = destructureMessage rt, code = None\<rparr>)),
             res_code = None, res_messageId = None, res_recipient = None,
             res_timestamp = Some (now rt)\<rparr>"
    by (simp add: send_confirmation_unparsed)
  show ?thesis
    by (intro conjI) (rule 1 2 3 4 5 6 7 9 10 8)+
qed

text \<open>
  Scenario B (authentication) and scenario C (timeout), each classified and each answered
  by the handler after two failed attempts; an error with an unlisted code and one with
  no code.
\<close>

theorem error_classification_witness:
  "classify auth_error =
     (lit ''Email authentication failed. Check your Gmail App Password on Render.'', 500)
   \<and> classify timeout_error = (lit ''Connection to Gmail timed out. Please try again.'', 504)
   \<and> classify \<lparr>message = lit ''Mailbox unavailable'', code = Some (lit ''EENVELOPE'')\<rparr> =
       (lit ''Mailbox unavailable'', 500)
   \<and> classify \<lparr>message = lit ''boom'', code = None\<rparr> = (lit ''boom'', 500)
   \<and> fst (send_confirmation sample_runtime (always_fails auth_error)
          (Some \<lparr>booking = Some sample_booking, status = Some (lit ''confirmed'')\<rparr>) []) =
       Inr \<lparr>res_status = 500, res_success = False,
            res_error = Some (lit ''Email authentication failed. Check your Gmail App Password on Render.''),
            res_code = Some (lit ''EAUTH''), res_messageId = None, res_recipient = None,
            res_timestamp = Some (now sample_runtime)\<rparr>
   \<and> fst (send_confirmation sample_runtime (always_fails timeout_error)
          (Some \<lparr>booking = Some sample_booking, status = None\<rparr>) []) =
       Inr \<lparr>res_status = 504, res_success = False,
            res_error = Some (lit ''Connection to Gmail timed out. Please try again.''),
            res_code = Some (lit ''ETIMEDOUT''), res_messageId = None, res_recipient = None,
            res_timestamp = Some (now sample_runtime)\<rparr>"
proof -
  let ?e3 = "\<lparr>message = lit ''Mailbox unavailable'', code = Some (lit ''EENVELOPE'')\<rparr>"
  let ?e4 = "\<lparr>message = lit ''boom'', code = None\<rparr>"
  let ?em = "lit ''guest@example.com''"
  let ?bodyB = "\<lparr>booking = Some sample_booking, status = Some (lit ''confirmed'')\<rparr>"
  let ?bodyC = "\<lparr>booking = Some sample_booking, status = None :: js_string option\<rparr>"
  have a: "\<not> includes_js (message auth_error) (lit ''timeout'') \<and>
           code auth_error = Some (lit ''EAUTH'')"
    by (simp add: auth_error_def lit_def)
  have b: "includes_js (message timeout_error) (lit ''timeout'') \<or>
           code timeout_error = Some (lit ''ETIMEDOUT'')"
    by (simp add: timeout_error_def)
  have c: "\<not> includes_js (message ?e3) (lit ''timeout'') \<and>
      code ?e3 \<notin> {Some (lit ''ETIMEDOUT''), Some (lit ''EAUTH''), Some (lit ''ECONNECTION''),
                 Some (lit ''ENOTFOUND'')}"
    by (simp add: lit_def)
  have d: "\<not> includes_js (message ?e4) (lit ''timeout'') \<and>
      code ?e4 \<notin> {Some (lit ''ETIMEDOUT''), Some (lit ''EAUTH''), Some (lit ''ECONNECTION''),
                 Some (lit ''ENOTFOUND'')}"
    by (simp add: lit_def)
  have valid: "booking ?bodyB = Some sample_booking \<and> email sample_booking = Some ?em \<and>
      emailRegex_test ?em"
    "booking ?bodyC = Some sample_booking \<and> email sample_booking = Some ?em \<and>
      emailRegex_test ?em"
    by (simp_all add: sample_booking_def lit_def emailRegex_test_def match_tld_def
        not_space_at_def is_space_def)
  have runB: "fst (sendEmailWithRetry (always_fails auth_error)
      (build_mailOptions sample_runtime sample_booking (status ?bodyB) ?em) 2 []) =
      Inl (Error auth_error)"
    by (simp add: sendEmailWithRetry_two always_fails_def)
  have runC: "fst (sendEmailWithRetry (always_fails timeout_error)
      (build_mailOptions sample_runtime sample_booking (status ?bodyC) ?em) 2 []) =
      Inl (Error timeout_error)"
    by (simp add: sendEmailWithRetry_two always_fails_def)
  note instB = error_classification [where e = auth_error and rt = sample_runtime
      and tr = "always_fails auth_error" and body = ?bodyB and b = sample_booking
      and em = ?em and t = "[]" and req_body = None]
  note instC = error_classification [where e = timeout_error and rt = sample_runtime
      and tr = "always_fails timeout_error" and body = ?bodyC and b = sample_booking
      and em = ?em and t = "[]" and req_body = None]
  from a instB have 1: "classify auth_error =
     (lit ''Email authentication failed. Check your Gmail App Password on Render.'', 500)"
    by blast
  from b instC have 2: "classify timeout_error =
     (lit ''Connection to Gmail timed out. Please try again.'', 504)"
    by blast
  from c error_classification [where e = ?e3] have 3: "classify ?e3 = (message ?e3, 500)"
    by blast
  from d error_classification [where e = ?e4] have 4: "classify ?e4 = (message ?e4, 500)"
    by blast
  from valid(1) runB instB have "fst (send_confirmation sample_runtime (always_fails auth_error)
      (Some ?bodyB) []) =
      Inr \<lparr>res_status = snd (classify auth_error), res_success = False,
           res_error = Some (fst (classify auth_error)), res_code = code auth_error,
           res_messageId = None, res_recipient = None,
           res_timestamp = Some (now sample_runtime)\<rparr>"
    by blast
  with 1 have 5: "fst (send_confirmation sample_runtime (always_fails auth_error)
      (Some ?bodyB) []) =
      Inr \<lparr>res_status = 500, res_success = False,
            res_error = Some (lit ''Email authentication failed. Check your Gmail App Password on Render.''),
            res_code = Some (lit ''EAUTH''), res_messageId = None, res_recipient = None,
            res_timestamp = Some (now sample_runtime)\<rparr>"
    by (simp add: auth_error_def)
  from valid(2) runC instC have "fst (send_confirmation sample_runtime
      (always_fails timeout_error) (Some ?bodyC) []) =
      Inr \<lparr>res_status = snd (classify timeout_error), res_success = False,
           res_error = Some (fst (classify timeout_error)), res_code = code timeout_error,
           res_messageId = None, res_recipient = None,
           res_timestamp = Some (now sample_runtime)\<rparr>"
    by blast
  with 2 have 6: "fst (send_confirmation sample_runtime (always_fails timeout_error)
      (Some ?bodyC) []) =
      Inr \<lparr>res_status = 504, res_success = False,
            res_error = Some (lit ''Connection to Gmail timed out. Please try again.''),
            res_code = Some (lit ''ETIMEDOUT''), res_messageId = None, res_recipient = None,
            res_timestamp = Some (now sample_runtime)\<rparr>"
    by (simp add: timeout_error_def)
  from 3 4 have 34: "classify ?e3 = (lit ''Mailbox unavailable'', 500)"
    "classify ?e4 = (lit ''boom'', 500)"
    by simp_all
  show ?thesis
    by (intro conjI) (rule 1 2 34 5 6)+
qed

text \<open>
  Claim C8. An error whose message contains \<^verbatim>\<open>timeout\<close> is reported as HTTP 504 with
  the timeout message whatever its code is, \<^verbatim>\<open>EAUTH\<close>, \<^verbatim>\<open>ECONNECTION\<close> and
  \<^verbatim>\<open>ENOTFOUND\<close> included: the test of the message comes first.
\<close>

theorem timeout_message_takes_precedence:
  assumes "includes_js (message e) (lit ''timeout'')"
  shows "classify e = (lit ''Connection to Gmail timed out. Please try again.'', 504)
       \<and> catch_block rt (Error e) =
           Inr \<lparr>res_status = 504, res_success = False,
                res_error = Some (lit ''Connection to Gmail timed out. Please try again.''),
                res_code = code e, res_messageId = None, res_recipient = None,
                res_timestamp = Some (now rt)\<rparr>"
proof -
  from assms have "classify e = (lit ''Connection to Gmail timed out. Please try again.'', 504)"
    by (simp add: classify_def)
  then show ?thesis by (simp add: catch_block_Error)
qed

text \<open>The three codes, each with a message that mentions a timeout.\<close>

theorem timeout_message_takes_precedence_witness:
  "classify \<lparr>message = lit ''Greeting never received: timeout'', code = Some (lit ''EAUTH'')\<rparr> =
     (lit ''Connection to Gmail timed out. Please try again.'', 504)
   \<and> classify \<lparr>message = lit ''connect timeout'', code = Some (lit ''ECONNECTION'')\<rparr> =
     (lit ''Connection to Gmail timed out. Please try again.'', 504)
   \<and> classify \<lparr>message = lit ''lookup timeout'', code = Some (lit ''ENOTFOUND'')\<rparr> =
     (lit ''Connection to Gmail timed out. Please try again.'', 504)"
proof -
  let ?e1 = "\<lparr>message = lit ''Greeting never received: timeout'', code = Some (lit ''EAUTH'')\<rparr>"
  let ?e2 = "\<lparr>message = lit ''connect timeout'', code = Some (lit ''ECONNECTION'')\<rparr>"
  let ?e3 = "\<lparr>message = lit ''lookup timeout'', code = Some (lit ''ENOTFOUND'')\<rparr>"
  have h1: "includes_js (message ?e1) (lit ''timeout'')" by (simp add: lit_def)
  have h2: "includes_js (message ?e2) (lit ''timeout'')" by (simp add: lit_def)
  have h3: "includes_js (message ?e3) (lit ''timeout'')" by (simp add: lit_def)
  from timeout_message_takes_precedence [OF h1] timeout_message_takes_precedence [OF h2]
    timeout_message_takes_precedence [OF h3]
  show ?thesis by blast
qed

subsection \<open>Template selection\<close>

lemma subjects_differ: "confirmation_subject b \<noteq> reminder_subject"
  by (simp add: confirmation_subject_def reminder_subject_def)

text \<open>
  Claim C10. For every request that passes validation, the message handed to the transport
  (once or twice, with nothing else) has the confirmation subject exactly when
  \<^verbatim>\<open>status\<close> is the string \<^verbatim>\<open>confirmed\<close>, and the reminder subject exactly when it is
  anything else, a missing \<^verbatim>\<open>status\<close> and a differently-cased string included; the HTML
  body comes from the generator chosen by the same test.
\<close>

theorem template_selection:
  assumes "booking body = Some b" and "email b = Some e" and "emailRegex_test e"
  shows "(snd (send_confirmation rt tr (Some body) t) =
            t @ [SendMail (build_mailOptions rt b (status body) e)]
          \<or> snd (send_confirmation rt tr (Some body) t) =
            t @ [SendMail (build_mailOptions rt b (status body) e), Sleep 2000,
                 SendMail (build_mailOptions rt b (status body) e)])
       \<and> (subject (build_mailOptions rt b (status body) e) = confirmation_subject b) =
           (status body = Some (lit ''confirmed''))
       \<and> (subject (build_mailOptions rt b (status body) e) = reminder_subject) =
           (status body \<noteq> Some (lit ''confirmed''))
       \<and> html (build_mailOptions rt b (status body) e) =
           (if status body = Some (lit ''confirmed'') then generateConfirmationEmail rt b
            else generateReminderEmail rt b)"
proof -
  from assms(3) have "e \<noteq> []"
    using emailRegex_test_Nil by auto
  with assms have trace: "snd (send_confirmation rt tr (Some body) t) =
            t @ [SendMail (build_mailOptions rt b (status body) e)]
          \<or> snd (send_confirmation rt tr (Some body) t) =
            t @ [SendMail (build_mailOptions rt b (status body) e), Sleep 2000,
                 SendMail (build_mailOptions rt b (status body) e)]"
    by (simp add: send_confirmation_def sendEmailWithRetry_two split: sum.splits)
  have subj: "(subject (build_mailOptions rt b (status body) e) = confirmation_subject b) =
           (status body = Some (lit ''confirmed''))"
    "(subject (build_mailOptions rt b (status body) e) = reminder_subject) =
           (status body \<noteq> Some (lit ''confirmed''))"
    using subjects_differ [of b] by (auto simp: build_mailOptions_def Let_def)
  have "html (build_mailOptions rt b (status body) e) =
           (if status body = Some (lit ''confirmed'') then generateConfirmationEmail rt b
            else generateReminderEmail rt b)"
    by (simp add: build_mailOptions_def Let_def)
  with trace subj show ?thesis by blast
qed

text \<open>\<^verbatim>\<open>confirmed\<close>, \<^verbatim>\<open>Confirmed\<close> and no status at all.\<close>

theorem template_selection_witness:
  "subject (build_mailOptions sample_runtime sample_booking (Some (lit ''confirmed''))
      (lit ''guest@example.com'')) = confirmation_subject sample_booking
   \<and> subject (build_mailOptions sample_runtime sample_booking (Some (lit ''Confirmed''))
      (lit ''guest@example.com'')) = reminder_subject
   \<and> subject (build_mailOptions sample_runtime sample_booking None
      (lit ''guest@example.com'')) = reminder_subject"
proof -
  let ?e = "lit ''guest@example.com''"
  have b: "email sample_booking = Some ?e" by (simp add: sample_booking_def)
  have e: "emailRegex_test ?e"
    by (simp add: lit_def emailRegex_test_def match_tld_def not_space_at_def is_space_def)
  have s: "Some (lit ''Confirmed'') \<noteq> Some (lit ''confirmed'')" by (simp add: lit_def)
  have b1: "booking \<lparr>booking = Some sample_booking, status = Some (lit ''confirmed'')\<rparr> =
    Some sample_booking" by simp
  have b2: "booking \<lparr>booking = Some sample_booking, status = Some (lit ''Confirmed'')\<rparr> =
    Some sample_booking" by simp
  have b3: "booking \<lparr>booking = Some sample_booking, status = None\<rparr> = Some sample_booking"
    by simp
  from template_selection [OF b1 b e] template_selection [OF b2 b e] template_selection [OF b3 b e] s
  show ?thesis by simp
qed

subsection \<open>The scenarios, end to end\<close>

text \<open>
  Scenario B (authentication fails twice: HTTP 500), scenario C (two timeouts: HTTP 504)
  and a delivery that succeeds on the second attempt, each through the handler with its
  trace of two invocations and one sleep of 2 s.
\<close>

lemma sample_email_valid: "emailRegex_test (lit ''guest@example.com'')"
  by (simp add: lit_def emailRegex_test_def match_tld_def not_space_at_def is_space_def)

lemma scenario_B:
  "send_confirmation sample_runtime (always_fails auth_error)
     (Some \<lparr>booking = Some sample_booking, status = Some (lit ''confirmed'')\<rparr>) [] =
   (Inr \<lparr>res_status = 500, res_success = False,
         res_error = Some (lit ''Email authentication failed. Check your Gmail App Password on Render.''),
         res_code = Some (lit ''EAUTH''), res_messageId = None, res_recipient = None,
         res_timestamp = Some (now sample_runtime)\<rparr>,
    [SendMail (build_mailOptions sample_runtime sample_booking (Some (lit ''confirmed''))
       (lit ''guest@example.com'')),
     Sleep 2000,
     SendMail (build_mailOptions sample_runtime sample_booking (Some (lit ''confirmed''))
       (lit ''guest@example.com''))])"
proof -
  have "lit ''guest@example.com'' \<noteq> []" by (simp add: lit_def)
  moreover have "classify auth_error =
      (lit ''Email authentication failed. Check your Gmail App Password on Render.'', 500)"
    by (simp add: classify_def auth_error_def lit_def)
  moreover have "code auth_error = Some (lit ''EAUTH'')" by (simp add: auth_error_def)
  ultimately show ?thesis
    using sample_email_valid
    by (simp add: send_confirmation_def sample_booking_def sendEmailWithRetry_two
        always_fails_def)
qed

lemma scenario_C:
  "send_confirmation sample_runtime (always_fails timeout_error)
     (Some \<lparr>booking = Some sample_booking, status = None\<rparr>) [] =
   (Inr \<lparr>res_status = 504, res_success = False,
         res_error = Some (lit ''Connection to Gmail timed out. Please try again.''),
         res_code = Some (lit ''ETIMEDOUT''), res_messageId = None, res_recipient = None,
         res_timestamp = Some (now sample_runtime)\<rparr>,
    [SendMail (build_mailOptions sample_runtime sample_booking None (lit ''guest@example.com'')),
     Sleep 2000,
     SendMail (build_mailOptions sample_runtime sample_booking None (lit ''guest@example.com''))])"
proof -
  have "lit ''guest@example.com'' \<noteq> []" by (simp add: lit_def)
  moreover have "classify timeout_error =
      (lit ''Connection to Gmail timed out. Please try again.'', 504)"
    by (simp add: classify_def timeout_error_def)
  moreover have "code timeout_error = Some (lit ''ETIMEDOUT'')" by (simp add: timeout_error_def)
  ultimately show ?thesis
    using sample_email_valid
    by (simp add: send_confirmation_def sample_booking_def sendEmailWithRetry_two
        always_fails_def)
qed

lemma scenario_success:
  "send_confirmation sample_runtime (succeeds_from 2 timeout_error sample_info)
     (Some \<lparr>booking = Some sample_booking, status = None\<rparr>) [] =
   (Inr \<lparr>res_status = 200, res_success = True, res_error = None, res_code = None,
         res_messageId = Some (lit ''<1@mail>''),
         res_recipient = Some (lit ''guest@example.com''),
         res_timestamp = Some (now sample_runtime)\<rparr>,
    [SendMail (build_mailOptions sample_runtime sample_booking None (lit ''guest@example.com'')),
     Sleep 2000,
     SendMail (build_mailOptions sample_runtime sample_booking None (lit ''guest@example.com''))])"
proof -
  have "lit ''guest@example.com'' \<noteq> []" by (simp add: lit_def)
  then show ?thesis
    using sample_email_valid
    by (simp add: send_confirmation_def sample_booking_def sendEmailWithRetry_two
        succeeds_from_def invocations_Nil sample_info_def)
qed

end
